theory Spec2Isabelle
  imports Complex_Main
begin

section \<open>Values and exceptions of the Python program\<close>

text \<open>
  The program is \<^verbatim>\<open>src/app.py\<close>, a FastAPI application. Request bodies are
  parsed JSON, so the values the handlers see are Python's \<^verbatim>\<open>None\<close>, booleans,
  numbers, strings, lists and dictionaries. Numbers are the finite ones: a JSON integer
  (an unbounded Python \<^verbatim>\<open>int\<close>) and a finite \<^verbatim>\<open>float\<close> both denote a
  real number, and Python compares an \<^verbatim>\<open>int\<close> or a \<^verbatim>\<open>float\<close> with a
  \<^verbatim>\<open>float\<close> by the exact value, so the order of \<^typ>\<open>real\<close> is the order the
  program computes on them. The floats that are no numbers (NaN and the two
  infinities, which only a literal outside standard JSON produces) are left out.
  Strings are byte lists; a character outside ASCII is its UTF-8 bytes.
\<close>

datatype pyval =
    PyNone
  | PyBool bool
  | PyNum real
  | PyStr string
  | PyList "pyval list"
  | PyDict "(string \<times> pyval) list"

text \<open>
  The exceptions that occur: \<^verbatim>\<open>TypeError\<close> from an ordering comparison between a
  number and a value that is no number, \<^verbatim>\<open>JWTError\<close> of the token library,
  \<^verbatim>\<open>JSONDecodeError\<close> of \<^verbatim>\<open>response.json()\<close>, FastAPI's
  \<^verbatim>\<open>HTTPException(status_code, detail)\<close>, \<^verbatim>\<open>ValueError\<close> from the lookup
  of an integer that is no HTTP status, and any other exception a library call may raise.
\<close>

datatype exn =
    TypeError
  | JWTError
  | JSONDecodeError
  | ValueError
  | HTTPException int pyval
  | OtherError string

text \<open>
  \<^verbatim>\<open>x < v\<close> and \<^verbatim>\<open>x > v\<close> for a float \<^verbatim>\<open>x\<close>: \<^verbatim>\<open>v\<close> takes part as a
  number when it is an \<^verbatim>\<open>int\<close>, a \<^verbatim>\<open>float\<close> or a \<^verbatim>\<open>bool\<close>
  (\<^verbatim>\<open>True\<close> is 1, \<^verbatim>\<open>False\<close> is 0); for \<^verbatim>\<open>None\<close>, a string, a list
  or a dictionary Python raises \<^verbatim>\<open>TypeError\<close>.
\<close>

fun as_number :: "pyval \<Rightarrow> real option" where
  "as_number (PyNum y) = Some y"
| "as_number (PyBool b) = Some (if b then 1 else 0)"
| "as_number PyNone = None"
| "as_number (PyStr s) = None"
| "as_number (PyList vs) = None"
| "as_number (PyDict kvs) = None"

definition py_lt :: "real \<Rightarrow> pyval \<Rightarrow> exn + bool" where
  "py_lt x v = (case as_number v of None \<Rightarrow> Inl TypeError | Some y \<Rightarrow> Inr (x < y))"

definition py_gt :: "real \<Rightarrow> pyval \<Rightarrow> exn + bool" where
  "py_gt x v = (case as_number v of None \<Rightarrow> Inl TypeError | Some y \<Rightarrow> Inr (x > y))"

text \<open>\<^verbatim>\<open>d.get(k, default)\<close> on a dictionary with string keys.\<close>

definition dict_get :: "(string \<rightharpoonup> pyval) \<Rightarrow> string \<Rightarrow> pyval \<Rightarrow> pyval" where
  "dict_get d k dflt = (case d k of None \<Rightarrow> dflt | Some v \<Rightarrow> v)"

section \<open>The request models\<close>

text \<open>
  The pydantic models of the source. \<^verbatim>\<open>thresholds: dict\<close> and
  \<^verbatim>\<open>raw_data: dict\<close> are untyped dictionaries: pydantic accepts any JSON object
  for them, whatever its values are.
\<close>

record AuthData =
  email :: string
  password :: string

record Decision =
  action :: string
  reason :: string
  price :: real
  volume :: real

record FileUpload =
  filename :: string
  raw_data :: "(string \<times> pyval) list"

record AnalyzeRequest =
  price :: real
  thresholds :: "string \<rightharpoonup> pyval"

section \<open>The classifier: \<^verbatim>\<open>analyze_price\<close>\<close>

text \<open>
  \<^verbatim>\<open>
  def analyze_price(data: AnalyzeRequest):
      if data.price < data.thresholds.get("buy", 200):
          return {"action": "buy", "reason": "Cena ponizej progu zakupu"}
      elif data.price > data.thresholds.get("sell", 600):
          return {"action": "sell", "reason": "Cena powyzej progu sprzedazy"}
      else:
          return {"action": "wait", "reason": "Cena neutralna"}
  \<close>
  The second comparison, and with it the lookup of \<^verbatim>\<open>"sell"\<close>, is evaluated only
  when the first comparison returned \<^verbatim>\<open>False\<close>.
\<close>

definition analyze_price :: "AnalyzeRequest \<Rightarrow> exn + pyval" where
  "analyze_price data =
     (case py_lt (AnalyzeRequest.price data)
             (dict_get (thresholds data) ''buy'' (PyNum 200)) of
        Inl e \<Rightarrow> Inl e
      | Inr True \<Rightarrow>
          Inr (PyDict [(''action'', PyStr ''buy''),
                       (''reason'', PyStr ''Cena ponizej progu zakupu'')])
      | Inr False \<Rightarrow>
          (case py_gt (AnalyzeRequest.price data)
                  (dict_get (thresholds data) ''sell'' (PyNum 600)) of
             Inl e \<Rightarrow> Inl e
           | Inr True \<Rightarrow>
               Inr (PyDict [(''action'', PyStr ''sell''),
                            (''reason'', PyStr ''Cena powyzej progu sprzedazy'')])
           | Inr False \<Rightarrow>
               Inr (PyDict [(''action'', PyStr ''wait''),
                            (''reason'', PyStr ''Cena neutralna'')])))"

text \<open>
  Reading a returned dictionary: \<^verbatim>\<open>result["action"]\<close> and
  \<^verbatim>\<open>result["reason"]\<close> of a call that returned, \<open>None\<close> for a call that raised.
\<close>

fun result_field :: "string \<Rightarrow> exn + pyval \<Rightarrow> pyval option" where
  "result_field k (Inr (PyDict kvs)) = map_of kvs k"
| "result_field k r = None"

section \<open>Configuration, libraries and the upstream service\<close>

text \<open>
  What a handler reads from outside its arguments is gathered in one record:
  \<^item> the three module globals, each the value of \<^verbatim>\<open>os.getenv\<close>, which is
    \<^verbatim>\<open>None\<close> for a variable that is not set;
  \<^item> \<^verbatim>\<open>jwt.decode(token, secret, algorithms=["HS256"])\<close> of the library
    \<^verbatim>\<open>jose\<close>, which is not part of the repository: a parameter that returns the
    payload dictionary or raises;
  \<^item> the upstream service: what \<^verbatim>\<open>requests.post\<close> or \<^verbatim>\<open>requests.get\<close>
    answers to an outbound request, a response or an exception of the transport;
  \<^item> the clock: the string \<^verbatim>\<open>datetime.utcnow().isoformat()\<close>;
  \<^item> \<^verbatim>\<open>str()\<close> on numbers, lists and dictionaries, whose text is not modelled;
  \<^item> the table \<^verbatim>\<open>http.HTTPStatus\<close> of the standard library: the phrase of a
    status code, \<open>None\<close> for an integer that is no status code;
  \<^item> the outbound requests sent so far, oldest first.
  Only the last component changes: a handler returns its result together with the new
  record.
\<close>

datatype http_method = GET | POST

record outbound_request =
  http_method :: http_method
  url :: string
  headers :: "(string \<times> string option) list"
  json_body :: "pyval option"

text \<open>
  A \<^verbatim>\<open>requests.Response\<close>: \<^verbatim>\<open>status_code\<close>, \<^verbatim>\<open>text\<close>, and the outcome of
  \<^verbatim>\<open>json()\<close>, which is \<open>None\<close> when the body is not valid JSON and the
  method raises \<^verbatim>\<open>JSONDecodeError\<close>.
\<close>

record response =
  status_code :: int
  text' :: string
  json :: "pyval option"

record world =
  SUPABASE_URL :: "string option"
  SUPABASE_API_KEY :: "string option"
  SUPABASE_JWT_SECRET :: "string option"
  jwt_decode :: "string \<Rightarrow> string option \<Rightarrow> exn + (string \<rightharpoonup> pyval)"
  upstream :: "outbound_request \<Rightarrow> exn + response"
  utcnow_isoformat :: string
  str_builtin :: "pyval \<Rightarrow> string"
  status_phrase :: "int \<Rightarrow> string option"
  sent :: "outbound_request list"

text \<open>
  An f-string field \<^verbatim>\<open>{x}\<close> is \<^verbatim>\<open>str(x)\<close>: the string itself,
  \<^verbatim>\<open>"None"\<close>, \<^verbatim>\<open>"True"\<close> or \<^verbatim>\<open>"False"\<close>.
\<close>

definition py_str :: "world \<Rightarrow> pyval \<Rightarrow> string" where
  "py_str w v =
     (case v of
        PyStr s \<Rightarrow> s
      | PyNone \<Rightarrow> ''None''
      | PyBool b \<Rightarrow> (if b then ''True'' else ''False'')
      | _ \<Rightarrow> str_builtin w v)"

definition str_of_env :: "string option \<Rightarrow> string" where
  "str_of_env v = (case v of None \<Rightarrow> ''None'' | Some s \<Rightarrow> s)"

definition requests_post ::
  "world \<Rightarrow> string \<Rightarrow> (string \<times> string option) list \<Rightarrow> pyval
     \<Rightarrow> (exn + response) \<times> world" where
  "requests_post w u hs js =
     (let rq = \<lparr>http_method = POST, url = u, headers = hs, json_body = Some js\<rparr>
      in (upstream w rq, w\<lparr>sent := sent w @ [rq]\<rparr>))"

definition requests_get ::
  "world \<Rightarrow> string \<Rightarrow> (string \<times> string option) list \<Rightarrow> (exn + response) \<times> world" where
  "requests_get w u hs =
     (let rq = \<lparr>http_method = GET, url = u, headers = hs, json_body = None\<rparr>
      in (upstream w rq, w\<lparr>sent := sent w @ [rq]\<rparr>))"

definition response_json :: "response \<Rightarrow> exn + pyval" where
  "response_json r = (case json r of None \<Rightarrow> Inl JSONDecodeError | Some v \<Rightarrow> Inr v)"

section \<open>Token verification: \<^verbatim>\<open>get_current_user\<close>\<close>

text \<open>
  \<^verbatim>\<open>
  def get_current_user(credentials = Depends(security)):
      token = credentials.credentials
      try:
          payload = jwt.decode(token, SUPABASE_JWT_SECRET, algorithms=["HS256"])
          user_id = payload.get("sub")
          if user_id is None:
              raise HTTPException(status_code=401, detail=...)
          return user_id
      except JWTError:
          raise HTTPException(status_code=403, detail=...)
  \<close>
  The body of the \<^verbatim>\<open>try\<close> is one function, the handler \<^verbatim>\<open>except JWTError\<close>
  another: it replaces \<^verbatim>\<open>JWTError\<close> and lets every other exception through, the
  \<^verbatim>\<open>HTTPException\<close> of the body among them. The two details are the source's
  Polish texts in UTF-8.
\<close>

definition detail_401 :: string where
  "detail_401 = ''Nieprawid'' @ [CHR 0xC5, CHR 0x82] @ ''owy token''"

definition detail_403 :: string where
  "detail_403 = ''B'' @ [CHR 0xC5, CHR 0x82, CHR 0xC4, CHR 0x85] @ ''d autoryzacji''"

definition get_current_user_try :: "world \<Rightarrow> string \<Rightarrow> exn + pyval" where
  "get_current_user_try w token =
     (case jwt_decode w token (SUPABASE_JWT_SECRET w) of
        Inl e \<Rightarrow> Inl e
      | Inr payload \<Rightarrow>
          (let user_id = dict_get payload ''sub'' PyNone
           in if user_id = PyNone then Inl (HTTPException 401 (PyStr detail_401))
              else Inr user_id))"

definition get_current_user :: "world \<Rightarrow> string \<Rightarrow> exn + pyval" where
  "get_current_user w token =
     (case get_current_user_try w token of
        Inl JWTError \<Rightarrow> Inl (HTTPException 403 (PyStr detail_403))
      | r \<Rightarrow> r)"

section \<open>The forwarding endpoints\<close>

text \<open>
  Each handler builds one outbound request, sends it (the statement
  \<^verbatim>\<open>response = requests.post(...)\<close> or \<^verbatim>\<open>requests.get(...)\<close>, here the
  function whose name ends in \<open>_call\<close>), and looks at the status of the response. \<^verbatim>\<open>register\<close>, \<^verbatim>\<open>login\<close>, \<^verbatim>\<open>get_user_decisions\<close> and
  \<^verbatim>\<open>get_user_uploads\<close> expect 200, \<^verbatim>\<open>add_decision\<close> and \<^verbatim>\<open>upload_data\<close>
  expect 201. The detail of the raised \<^verbatim>\<open>HTTPException\<close> is \<^verbatim>\<open>response.json()\<close>
  in \<^verbatim>\<open>register\<close> and \<^verbatim>\<open>login\<close> and \<^verbatim>\<open>response.text\<close> in the other four.
\<close>

text \<open>
  The constructor \<^verbatim>\<open>HTTPException(status_code=s, detail=d)\<close> keeps a detail that
  is not \<^verbatim>\<open>None\<close>. For \<^verbatim>\<open>None\<close> it takes the phrase
  \<^verbatim>\<open>http.HTTPStatus(s).phrase\<close> as the detail, and that lookup raises
  \<^verbatim>\<open>ValueError\<close> when \<^verbatim>\<open>s\<close> is no status code. Only \<^verbatim>\<open>register\<close>
  and \<^verbatim>\<open>login\<close> can pass \<^verbatim>\<open>None\<close>, when the body of the response is the
  JSON text \<^verbatim>\<open>null\<close>; everywhere else the detail is a string.
\<close>

definition http_exception :: "world \<Rightarrow> int \<Rightarrow> pyval \<Rightarrow> exn" where
  "http_exception w s d =
     (if d = PyNone then
        (case status_phrase w s of
           None \<Rightarrow> ValueError
         | Some phrase \<Rightarrow> HTTPException s (PyStr phrase))
      else HTTPException s d)"

definition register_call :: "world \<Rightarrow> AuthData \<Rightarrow> (exn + response) \<times> world" where
  "register_call w data =
     requests_post w (str_of_env (SUPABASE_URL w) @ ''/auth/v1/signup'')
       [(''apikey'', SUPABASE_API_KEY w), (''Content-Type'', Some ''application/json'')]
       (PyDict [(''email'', PyStr (email data)), (''password'', PyStr (password data))])"

definition register :: "world \<Rightarrow> AuthData \<Rightarrow> (exn + pyval) \<times> world" where
  "register w data =
     (case register_call w data of
        (Inl e, w') \<Rightarrow> (Inl e, w')
      | (Inr response, w') \<Rightarrow>
          if status_code response \<noteq> 200 then
            (case response_json response of
               Inl e \<Rightarrow> (Inl e, w')
             | Inr d \<Rightarrow> (Inl (http_exception w (status_code response) d), w'))
          else (response_json response, w'))"

definition login_call :: "world \<Rightarrow> AuthData \<Rightarrow> (exn + response) \<times> world" where
  "login_call w data =
     requests_post w (str_of_env (SUPABASE_URL w) @ ''/auth/v1/token?grant_type=password'')
       [(''apikey'', SUPABASE_API_KEY w), (''Content-Type'', Some ''application/json'')]
       (PyDict [(''email'', PyStr (email data)), (''password'', PyStr (password data))])"

definition login :: "world \<Rightarrow> AuthData \<Rightarrow> (exn + pyval) \<times> world" where
  "login w data =
     (case login_call w data of
        (Inl e, w') \<Rightarrow> (Inl e, w')
      | (Inr response, w') \<Rightarrow>
          if status_code response \<noteq> 200 then
            (case response_json response of
               Inl e \<Rightarrow> (Inl e, w')
             | Inr d \<Rightarrow> (Inl (http_exception w (status_code response) d), w'))
          else (response_json response, w'))"

definition get_profile :: "pyval \<Rightarrow> exn + pyval" where
  "get_profile user_id = Inr (PyDict [(''user_id'', user_id)])"

definition store_headers :: "world \<Rightarrow> (string \<times> string option) list" where
  "store_headers w =
     [(''apikey'', SUPABASE_API_KEY w),
      (''Authorization'', Some (''Bearer '' @ str_of_env (SUPABASE_API_KEY w)))]"

definition add_decision_call ::
  "world \<Rightarrow> Decision \<Rightarrow> pyval \<Rightarrow> (exn + response) \<times> world" where
  "add_decision_call w data user_id =
     requests_post w (str_of_env (SUPABASE_URL w) @ ''/rest/v1/decisions'')
       (store_headers w @ [(''Content-Type'', Some ''application/json'')])
       (PyDict [(''user_id'', user_id),
                (''timestamp'', PyStr (utcnow_isoformat w)),
                (''action'', PyStr (action data)),
                (''reason'', PyStr (reason data)),
                (''price'', PyNum (Decision.price data)),
                (''volume'', PyNum (volume data))])"

definition add_decision :: "world \<Rightarrow> Decision \<Rightarrow> pyval \<Rightarrow> (exn + pyval) \<times> world" where
  "add_decision w data user_id =
     (case add_decision_call w data user_id of
        (Inl e, w') \<Rightarrow> (Inl e, w')
      | (Inr response, w') \<Rightarrow>
          if status_code response \<noteq> 201 then
            (Inl (HTTPException (status_code response) (PyStr (text' response))), w')
          else (Inr (PyDict [(''status'', PyStr ''decision saved'')]), w'))"

definition get_user_decisions_call :: "world \<Rightarrow> pyval \<Rightarrow> (exn + response) \<times> world" where
  "get_user_decisions_call w user_id =
     requests_get w
       (str_of_env (SUPABASE_URL w) @ ''/rest/v1/decisions?user_id=eq.''
          @ py_str w user_id @ ''&order=timestamp.desc'')
       (store_headers w)"

definition get_user_decisions :: "world \<Rightarrow> pyval \<Rightarrow> (exn + pyval) \<times> world" where
  "get_user_decisions w user_id =
     (case get_user_decisions_call w user_id of
        (Inl e, w') \<Rightarrow> (Inl e, w')
      | (Inr response, w') \<Rightarrow>
          if status_code response \<noteq> 200 then
            (Inl (HTTPException (status_code response) (PyStr (text' response))), w')
          else (response_json response, w'))"

definition upload_data_call ::
  "world \<Rightarrow> FileUpload \<Rightarrow> pyval \<Rightarrow> (exn + response) \<times> world" where
  "upload_data_call w data user_id =
     requests_post w (str_of_env (SUPABASE_URL w) @ ''/rest/v1/uploads'')
       (store_headers w @ [(''Content-Type'', Some ''application/json'')])
       (PyDict [(''user_id'', user_id),
                (''uploaded_at'', PyStr (utcnow_isoformat w)),
                (''filename'', PyStr (filename data)),
                (''raw_data'', PyDict (raw_data data))])"

definition upload_data :: "world \<Rightarrow> FileUpload \<Rightarrow> pyval \<Rightarrow> (exn + pyval) \<times> world" where
  "upload_data w data user_id =
     (case upload_data_call w data user_id of
        (Inl e, w') \<Rightarrow> (Inl e, w')
      | (Inr response, w') \<Rightarrow>
          if status_code response \<noteq> 201 then
            (Inl (HTTPException (status_code response) (PyStr (text' response))), w')
          else (Inr (PyDict [(''status'', PyStr ''upload saved'')]), w'))"

definition get_user_uploads_call :: "world \<Rightarrow> pyval \<Rightarrow> (exn + response) \<times> world" where
  "get_user_uploads_call w user_id =
     requests_get w
       (str_of_env (SUPABASE_URL w) @ ''/rest/v1/uploads?user_id=eq.''
          @ py_str w user_id @ ''&order=uploaded_at.desc'')
       (store_headers w)"

definition get_user_uploads :: "world \<Rightarrow> pyval \<Rightarrow> (exn + pyval) \<times> world" where
  "get_user_uploads w user_id =
     (case get_user_uploads_call w user_id of
        (Inl e, w') \<Rightarrow> (Inl e, w')
      | (Inr response, w') \<Rightarrow>
          if status_code response \<noteq> 200 then
            (Inl (HTTPException (status_code response) (PyStr (text' response))), w')
          else (response_json response, w'))"

section \<open>The application: routes and dependencies\<close>

text \<open>
  A request names its route and carries the validated body and, on the routes that
  declare \<^verbatim>\<open>Depends(get_current_user)\<close>, the bearer token
  \<^verbatim>\<open>credentials.credentials\<close>. FastAPI resolves the dependency first and calls the
  handler only when it returned. The rejection of a request that carries no bearer
  token at all is FastAPI's \<^verbatim>\<open>HTTPBearer\<close> and happens before this function.
\<close>

datatype request =
    POST_register AuthData
  | POST_login AuthData
  | GET_me string
  | POST_decision Decision string
  | GET_decisions string
  | POST_analyze AnalyzeRequest
  | POST_upload FileUpload string
  | GET_uploads string

definition depends_user ::
  "world \<Rightarrow> string \<Rightarrow> (pyval \<Rightarrow> (exn + pyval) \<times> world) \<Rightarrow> (exn + pyval) \<times> world" where
  "depends_user w token handler =
     (case get_current_user w token of
        Inl e \<Rightarrow> (Inl e, w)
      | Inr user_id \<Rightarrow> handler user_id)"

definition app :: "world \<Rightarrow> request \<Rightarrow> (exn + pyval) \<times> world" where
  "app w rq =
     (case rq of
        POST_register data \<Rightarrow> register w data
      | POST_login data \<Rightarrow> login w data
      | GET_me token \<Rightarrow> depends_user w token (\<lambda>user_id. (get_profile user_id, w))
      | POST_decision data token \<Rightarrow> depends_user w token (add_decision w data)
      | GET_decisions token \<Rightarrow> depends_user w token (get_user_decisions w)
      | POST_analyze data \<Rightarrow> (analyze_price data, w)
      | POST_upload data token \<Rightarrow> depends_user w token (upload_data w data)
      | GET_uploads token \<Rightarrow> depends_user w token (get_user_uploads w))"

section \<open>A deployment to evaluate on\<close>

text \<open>
  A record to run the handlers on at concrete inputs: a configured deployment with a
  given token library and a given upstream service, that has sent nothing yet.
\<close>

definition deployment ::
  "(string \<Rightarrow> string option \<Rightarrow> exn + (string \<rightharpoonup> pyval))
     \<Rightarrow> (outbound_request \<Rightarrow> exn + response) \<Rightarrow> world" where
  "deployment dec up =
     \<lparr>SUPABASE_URL = Some ''https://project.supabase.co'',
      SUPABASE_API_KEY = Some ''service-key'',
      SUPABASE_JWT_SECRET = Some ''jwt-secret'',
      jwt_decode = dec,
      upstream = up,
      utcnow_isoformat = ''2024-05-01T12:00:00'',
      str_builtin = (\<lambda>v. ''?''),
      status_phrase = (\<lambda>s. if s = 400 then Some ''Bad Request''
                          else if s = 502 then Some ''Bad Gateway'' else None),
      sent = []\<rparr>"

section \<open>Facts about the classifier\<close>

lemma py_lt_number: "as_number v = Some y \<Longrightarrow> py_lt x v = Inr (x < y)"
  by (simp add: py_lt_def)

lemma py_gt_number: "as_number v = Some y \<Longrightarrow> py_gt x v = Inr (x > y)"
  by (simp add: py_gt_def)

lemma py_lt_not_number: "as_number v = None \<Longrightarrow> py_lt x v = Inl TypeError"
  by (simp add: py_lt_def)

lemma py_gt_not_number: "as_number v = None \<Longrightarrow> py_gt x v = Inl TypeError"
  by (simp add: py_gt_def)

text \<open>
  The three branches. The first needs the value under \<^verbatim>\<open>"buy"\<close> only: when the
  price is below it, the value under \<^verbatim>\<open>"sell"\<close> is never looked at.
\<close>

lemma analyze_price_buy:
  assumes "as_number (dict_get (thresholds data) ''buy'' (PyNum 200)) = Some b"
    and "AnalyzeRequest.price data < b"
  shows "analyze_price data =
           Inr (PyDict [(''action'', PyStr ''buy''),
                        (''reason'', PyStr ''Cena ponizej progu zakupu'')])"
  using assms by (simp add: analyze_price_def py_lt_number)

lemma analyze_price_sell:
  assumes "as_number (dict_get (thresholds data) ''buy'' (PyNum 200)) = Some b"
    and "as_number (dict_get (thresholds data) ''sell'' (PyNum 600)) = Some s"
    and "\<not> AnalyzeRequest.price data < b"
    and "AnalyzeRequest.price data > s"
  shows "analyze_price data =
           Inr (PyDict [(''action'', PyStr ''sell''),
                        (''reason'', PyStr ''Cena powyzej progu sprzedazy'')])"
  using assms by (simp add: analyze_price_def py_lt_number py_gt_number)

lemma analyze_price_wait:
  assumes "as_number (dict_get (thresholds data) ''buy'' (PyNum 200)) = Some b"
    and "as_number (dict_get (thresholds data) ''sell'' (PyNum 600)) = Some s"
    and "\<not> AnalyzeRequest.price data < b"
    and "\<not> AnalyzeRequest.price data > s"
  shows "analyze_price data =
           Inr (PyDict [(''action'', PyStr ''wait''),
                        (''reason'', PyStr ''Cena neutralna'')])"
  using assms by (simp add: analyze_price_def py_lt_number py_gt_number)

text \<open>
  Outside the numbers the comparison raises: a value under \<^verbatim>\<open>"buy"\<close> that is
  \<^verbatim>\<open>None\<close>, a string, a list or a dictionary makes the call end in
  \<^verbatim>\<open>TypeError\<close>, and so does such a value under \<^verbatim>\<open>"sell"\<close> once the price is
  not below the buy threshold.
\<close>

lemma analyze_price_buy_not_number:
  assumes "as_number (dict_get (thresholds data) ''buy'' (PyNum 200)) = None"
  shows "analyze_price data = Inl TypeError"
  using assms by (simp add: analyze_price_def py_lt_not_number)

lemma analyze_price_sell_not_number:
  assumes "as_number (dict_get (thresholds data) ''buy'' (PyNum 200)) = Some b"
    and "\<not> AnalyzeRequest.price data < b"
    and "as_number (dict_get (thresholds data) ''sell'' (PyNum 600)) = None"
  shows "analyze_price data = Inl TypeError"
  using assms by (simp add: analyze_price_def py_lt_number py_gt_not_number)

text \<open>
  C1, as amended. The buy threshold is the value under \<^verbatim>\<open>"buy"\<close> when the key is
  present and 200 otherwise, the sell threshold the value under \<^verbatim>\<open>"sell"\<close> when
  present and 600 otherwise. When both are numbers, the result is the \<^verbatim>\<open>buy\<close>
  dictionary for a price below the buy threshold, else the \<^verbatim>\<open>sell\<close> dictionary for
  a price above the sell threshold, else the \<^verbatim>\<open>wait\<close> dictionary, and the reasons
  are the source's texts \<^verbatim>\<open>Cena ponizej progu zakupu\<close>,
  \<^verbatim>\<open>Cena powyzej progu sprzedazy\<close> and \<^verbatim>\<open>Cena neutralna\<close>.
\<close>

theorem analyze_price_classifies:
  assumes "as_number (case thresholds data ''buy'' of Some v \<Rightarrow> v | None \<Rightarrow> PyNum 200) = Some b"
    and "as_number (case thresholds data ''sell'' of Some v \<Rightarrow> v | None \<Rightarrow> PyNum 600) = Some s"
  shows "analyze_price data =
           (if AnalyzeRequest.price data < b then
              Inr (PyDict [(''action'', PyStr ''buy''),
                           (''reason'', PyStr ''Cena ponizej progu zakupu'')])
            else if AnalyzeRequest.price data > s then
              Inr (PyDict [(''action'', PyStr ''sell''),
                           (''reason'', PyStr ''Cena powyzej progu sprzedazy'')])
            else
              Inr (PyDict [(''action'', PyStr ''wait''),
                           (''reason'', PyStr ''Cena neutralna'')]))"
proof -
  have b: "as_number (dict_get (thresholds data) ''buy'' (PyNum 200)) = Some b"
    using assms(1) by (simp add: dict_get_def split: option.splits)
  have s: "as_number (dict_get (thresholds data) ''sell'' (PyNum 600)) = Some s"
    using assms(2) by (simp add: dict_get_def split: option.splits)
  show ?thesis
    using analyze_price_buy [OF b] analyze_price_sell [OF b s] analyze_price_wait [OF b s]
    by simp
qed

theorem analyze_price_classifies_witness:
  "analyze_price \<lparr>price = 150, thresholds = [''buy'' \<mapsto> PyNum 300, ''sell'' \<mapsto> PyNum 500]\<rparr>
     = Inr (PyDict [(''action'', PyStr ''buy''),
                    (''reason'', PyStr ''Cena ponizej progu zakupu'')]) \<and>
   analyze_price \<lparr>price = 700, thresholds = Map.empty\<rparr>
     = Inr (PyDict [(''action'', PyStr ''sell''),
                    (''reason'', PyStr ''Cena powyzej progu sprzedazy'')]) \<and>
   analyze_price \<lparr>price = 400, thresholds = [''sell'' \<mapsto> PyNum 450]\<rparr>
     = Inr (PyDict [(''action'', PyStr ''wait''),
                    (''reason'', PyStr ''Cena neutralna'')])"
  using analyze_price_classifies
          [of "\<lparr>price = 150, thresholds = [''buy'' \<mapsto> PyNum 300, ''sell'' \<mapsto> PyNum 500]\<rparr>"
              300 500]
        analyze_price_classifies [of "\<lparr>price = 700, thresholds = Map.empty\<rparr>" 200 600]
        analyze_price_classifies
          [of "\<lparr>price = 400, thresholds = [''sell'' \<mapsto> PyNum 450]\<rparr>" 200 450]
  by simp

text \<open>
  C1 as stated fails on the reason: for the price 50 and no thresholds the result is not
  the dictionary with the reason \<^verbatim>\<open>price below buy threshold\<close>.
\<close>

theorem analyze_price_reason_counterexample:
  "analyze_price \<lparr>price = 50, thresholds = Map.empty\<rparr>
     \<noteq> Inr (PyDict [(''action'', PyStr ''buy''),
                     (''reason'', PyStr ''price below buy threshold'')])"
  by (simp add: analyze_price_def py_lt_def dict_get_def)

text \<open>
  C2, as amended. When the buy threshold is not above the sell threshold, a price equal
  to either of them is classified \<^verbatim>\<open>wait\<close>; with the defaults these are the prices
  200 and 600.
\<close>

theorem analyze_price_boundary:
  assumes "as_number (dict_get (thresholds data) ''buy'' (PyNum 200)) = Some b"
    and "as_number (dict_get (thresholds data) ''sell'' (PyNum 600)) = Some s"
    and "b \<le> s"
    and "AnalyzeRequest.price data = b \<or> AnalyzeRequest.price data = s"
  shows "result_field ''action'' (analyze_price data) = Some (PyStr ''wait'')"
proof -
  from assms(3,4) have "\<not> AnalyzeRequest.price data < b" "\<not> AnalyzeRequest.price data > s"
    by auto
  then show ?thesis
    by (simp add: analyze_price_wait [OF assms(1,2)])
qed

theorem analyze_price_boundary_witness:
  "result_field ''action'' (analyze_price \<lparr>price = 200, thresholds = Map.empty\<rparr>)
     = Some (PyStr ''wait'') \<and>
   result_field ''action'' (analyze_price \<lparr>price = 600, thresholds = Map.empty\<rparr>)
     = Some (PyStr ''wait'')"
  using analyze_price_boundary [of "\<lparr>price = 200, thresholds = Map.empty\<rparr>" 200 600]
        analyze_price_boundary [of "\<lparr>price = 600, thresholds = Map.empty\<rparr>" 200 600]
  by (simp add: dict_get_def)

text \<open>
  C2 as stated, for every thresholds mapping, fails where the buy threshold is above the
  sell threshold: with \<^verbatim>\<open>{"buy": 500, "sell": 300}\<close> the price 500, equal to the buy
  threshold, is classified \<^verbatim>\<open>sell\<close>, and the price 300, equal to the sell
  threshold, is classified \<^verbatim>\<open>buy\<close>.
\<close>

theorem analyze_price_boundary_counterexample:
  "result_field ''action''
     (analyze_price \<lparr>price = 500, thresholds = [''buy'' \<mapsto> PyNum 500, ''sell'' \<mapsto> PyNum 300]\<rparr>)
     = Some (PyStr ''sell'') \<and>
   result_field ''action''
     (analyze_price \<lparr>price = 500, thresholds = [''buy'' \<mapsto> PyNum 500, ''sell'' \<mapsto> PyNum 300]\<rparr>)
     \<noteq> Some (PyStr ''wait'') \<and>
   result_field ''action''
     (analyze_price \<lparr>price = 300, thresholds = [''buy'' \<mapsto> PyNum 500, ''sell'' \<mapsto> PyNum 300]\<rparr>)
     = Some (PyStr ''buy'') \<and>
   result_field ''action''
     (analyze_price \<lparr>price = 300, thresholds = [''buy'' \<mapsto> PyNum 500, ''sell'' \<mapsto> PyNum 300]\<rparr>)
     \<noteq> Some (PyStr ''wait'')"
  by (simp add: analyze_price_def py_lt_def py_gt_def dict_get_def)

text \<open>
  C3. With thresholds that resolve to the defaults 200 and 600 (the empty mapping among
  them), every price below 200 is classified \<^verbatim>\<open>buy\<close> and every price above 600
  is classified \<^verbatim>\<open>sell\<close>.
\<close>

theorem analyze_price_defaults:
  assumes "dict_get (thresholds data) ''buy'' (PyNum 200) = PyNum 200"
    and "dict_get (thresholds data) ''sell'' (PyNum 600) = PyNum 600"
  shows "(AnalyzeRequest.price data < 200 \<longrightarrow>
            result_field ''action'' (analyze_price data) = Some (PyStr ''buy'')) \<and>
         (AnalyzeRequest.price data > 600 \<longrightarrow>
            result_field ''action'' (analyze_price data) = Some (PyStr ''sell''))"
proof (intro conjI impI)
  assume "AnalyzeRequest.price data < 200"
  with assms(1) show "result_field ''action'' (analyze_price data) = Some (PyStr ''buy'')"
    by (simp add: analyze_price_buy [where b = 200])
next
  assume "AnalyzeRequest.price data > 600"
  with assms show "result_field ''action'' (analyze_price data) = Some (PyStr ''sell'')"
    by (simp add: analyze_price_sell [where b = 200 and s = 600])
qed

theorem analyze_price_defaults_witness:
  "result_field ''action'' (analyze_price \<lparr>price = 50, thresholds = Map.empty\<rparr>)
     = Some (PyStr ''buy'') \<and>
   result_field ''action'' (analyze_price \<lparr>price = 700, thresholds = Map.empty\<rparr>)
     = Some (PyStr ''sell'')"
  using analyze_price_defaults [of "\<lparr>price = 50, thresholds = Map.empty\<rparr>"]
    analyze_price_defaults [of "\<lparr>price = 700, thresholds = Map.empty\<rparr>"]
  by (simp add: dict_get_def)

text \<open>
  C4. Thresholds given in the request replace the defaults, and every price strictly
  between the buy threshold and the sell threshold is classified \<^verbatim>\<open>wait\<close>: so are
  400 under \<^verbatim>\<open>{"buy": 300, "sell": 500}\<close> and 150 under \<^verbatim>\<open>{"buy": 100}\<close>.
\<close>

theorem analyze_price_between:
  assumes "as_number (dict_get (thresholds data) ''buy'' (PyNum 200)) = Some b"
    and "as_number (dict_get (thresholds data) ''sell'' (PyNum 600)) = Some s"
    and "b < AnalyzeRequest.price data"
    and "AnalyzeRequest.price data < s"
  shows "result_field ''action'' (analyze_price data) = Some (PyStr ''wait'')"
proof -
  from assms(3,4) have "\<not> AnalyzeRequest.price data < b" "\<not> AnalyzeRequest.price data > s"
    by auto
  then show ?thesis
    by (simp add: analyze_price_wait [OF assms(1,2)])
qed

theorem analyze_price_between_witness:
  "result_field ''action''
     (analyze_price \<lparr>price = 400, thresholds = [''buy'' \<mapsto> PyNum 300, ''sell'' \<mapsto> PyNum 500]\<rparr>)
     = Some (PyStr ''wait'') \<and>
   result_field ''action'' (analyze_price \<lparr>price = 150, thresholds = [''buy'' \<mapsto> PyNum 100]\<rparr>)
     = Some (PyStr ''wait'')"
  using analyze_price_between
          [of "\<lparr>price = 400, thresholds = [''buy'' \<mapsto> PyNum 300, ''sell'' \<mapsto> PyNum 500]\<rparr>"
              300 500]
        analyze_price_between [of "\<lparr>price = 150, thresholds = [''buy'' \<mapsto> PyNum 100]\<rparr>" 100 600]
  by (simp add: dict_get_def)

text \<open>
  C5, as amended. For thresholds whose values under \<^verbatim>\<open>"buy"\<close> and
  \<^verbatim>\<open>"sell"\<close>, where present, are numbers, the classifier always returns: whatever
  the price and whatever the two thresholds are, the buy threshold above the sell
  threshold included, the call raises nothing and its result carries one of the actions
  \<^verbatim>\<open>buy\<close>, \<^verbatim>\<open>sell\<close> and \<^verbatim>\<open>wait\<close>.
\<close>

theorem analyze_price_total:
  assumes "as_number (dict_get (thresholds data) ''buy'' (PyNum 200)) = Some b"
    and "as_number (dict_get (thresholds data) ''sell'' (PyNum 600)) = Some s"
  shows "\<exists>r. analyze_price data = Inr r \<and>
             (result_field ''action'' (Inr r) = Some (PyStr ''buy'') \<or>
              result_field ''action'' (Inr r) = Some (PyStr ''sell'') \<or>
              result_field ''action'' (Inr r) = Some (PyStr ''wait''))"
proof (cases "AnalyzeRequest.price data < b")
  case True
  then show ?thesis by (simp add: analyze_price_buy [OF assms(1)])
next
  case below: False
  show ?thesis
  proof (cases "AnalyzeRequest.price data > s")
    case True
    with below show ?thesis by (simp add: analyze_price_sell [OF assms])
  next
    case False
    with below show ?thesis by (simp add: analyze_price_wait [OF assms])
  qed
qed

theorem analyze_price_total_witness:
  "\<exists>r. analyze_price \<lparr>price = 400, thresholds = [''buy'' \<mapsto> PyNum 600, ''sell'' \<mapsto> PyNum 200]\<rparr>
          = Inr r \<and>
       (result_field ''action'' (Inr r) = Some (PyStr ''buy'') \<or>
        result_field ''action'' (Inr r) = Some (PyStr ''sell'') \<or>
        result_field ''action'' (Inr r) = Some (PyStr ''wait''))"
  using analyze_price_total
          [of "\<lparr>price = 400, thresholds = [''buy'' \<mapsto> PyNum 600, ''sell'' \<mapsto> PyNum 200]\<rparr>"
              600 200]
  by (simp add: dict_get_def)

text \<open>
  C5 as stated, for every thresholds mapping, fails: \<^verbatim>\<open>thresholds: dict\<close> admits
  values that are no numbers, and under \<^verbatim>\<open>{"buy": "300"}\<close> the comparison of the
  price 150 with the string raises \<^verbatim>\<open>TypeError\<close>, so the call returns none of
  the three results. The same happens under \<^verbatim>\<open>{"sell": null}\<close> for the price 400,
  which is not below the default buy threshold.
\<close>

theorem analyze_price_total_counterexample:
  "analyze_price \<lparr>price = 150, thresholds = [''buy'' \<mapsto> PyStr ''300'']\<rparr> = Inl TypeError \<and>
   analyze_price \<lparr>price = 400, thresholds = [''sell'' \<mapsto> PyNone]\<rparr> = Inl TypeError"
  by (simp add: analyze_price_def py_lt_def py_gt_def dict_get_def)

text \<open>
  C10. The classifier reads the keys \<^verbatim>\<open>"buy"\<close> and \<^verbatim>\<open>"sell"\<close> and no other:
  two requests with the same price whose thresholds agree on these two keys, in presence
  and in value, get the same result, an exception included.
\<close>

theorem analyze_price_only_buy_sell:
  assumes "AnalyzeRequest.price d1 = AnalyzeRequest.price d2"
    and "thresholds d1 ''buy'' = thresholds d2 ''buy''"
    and "thresholds d1 ''sell'' = thresholds d2 ''sell''"
  shows "analyze_price d1 = analyze_price d2"
proof -
  have buy: "dict_get (thresholds d1) ''buy'' (PyNum 200)
               = dict_get (thresholds d2) ''buy'' (PyNum 200)"
    using assms(2) by (simp add: dict_get_def)
  have sell: "dict_get (thresholds d1) ''sell'' (PyNum 600)
                = dict_get (thresholds d2) ''sell'' (PyNum 600)"
    using assms(3) by (simp add: dict_get_def)
  show ?thesis
    unfolding analyze_price_def assms(1) buy sell by (rule refl)
qed

theorem analyze_price_only_buy_sell_witness:
  "analyze_price \<lparr>price = 150, thresholds = [''buy'' \<mapsto> PyNum 100]\<rparr>
     = analyze_price \<lparr>price = 150,
         thresholds = [''buy'' \<mapsto> PyNum 100, ''hold'' \<mapsto> PyStr ''x'', ''limit'' \<mapsto> PyNone]\<rparr>"
  using analyze_price_only_buy_sell
          [of "\<lparr>price = 150, thresholds = [''buy'' \<mapsto> PyNum 100]\<rparr>"
              "\<lparr>price = 150,
                thresholds = [''buy'' \<mapsto> PyNum 100, ''hold'' \<mapsto> PyStr ''x'', ''limit'' \<mapsto> PyNone]\<rparr>"]
  by simp

section \<open>Facts about token verification\<close>

text \<open>
  \<^verbatim>\<open>payload.get("sub")\<close> is \<^verbatim>\<open>None\<close> for a payload without the key and for
  one that holds \<^verbatim>\<open>None\<close> under it: both are the case of the missing subject. An
  exception of the library that is no \<^verbatim>\<open>JWTError\<close> is not caught.
\<close>

lemma get_current_user_null_subject:
  assumes "jwt_decode w token (SUPABASE_JWT_SECRET w) = Inr payload"
    and "payload ''sub'' = Some PyNone"
  shows "get_current_user w token = Inl (HTTPException 401 (PyStr detail_401))"
  using assms by (simp add: get_current_user_def get_current_user_try_def dict_get_def)

lemma get_current_user_other_exception:
  assumes "jwt_decode w token (SUPABASE_JWT_SECRET w) = Inl e" and "e \<noteq> JWTError"
  shows "get_current_user w token = Inl e"
  using assms by (cases e) (simp_all add: get_current_user_def get_current_user_try_def)

text \<open>
  C7. The three outcomes of token verification: when decoding raises
  \<^verbatim>\<open>JWTError\<close> (a malformed token, a wrong signature) the request fails with
  status 403; when decoding returns a payload without a subject it fails with status
  401; when decoding returns a payload with a subject, that value is the caller's
  identity.
\<close>

theorem get_current_user_tiers:
  "(jwt_decode w token (SUPABASE_JWT_SECRET w) = Inl JWTError \<longrightarrow>
      get_current_user w token = Inl (HTTPException 403 (PyStr detail_403))) \<and>
   (jwt_decode w token (SUPABASE_JWT_SECRET w) = Inr payload \<and> payload ''sub'' = None \<longrightarrow>
      get_current_user w token = Inl (HTTPException 401 (PyStr detail_401))) \<and>
   (jwt_decode w token (SUPABASE_JWT_SECRET w) = Inr payload \<and> payload ''sub'' = Some v
      \<and> v \<noteq> PyNone \<longrightarrow>
      get_current_user w token = Inr v)"
  by (cases v) (simp_all add: get_current_user_def get_current_user_try_def dict_get_def)

theorem get_current_user_tiers_witness:
  "get_current_user (deployment (\<lambda>t s. Inl JWTError) (\<lambda>rq. Inl (OtherError ''offline''))) ''abc''
     = Inl (HTTPException 403 (PyStr detail_403)) \<and>
   get_current_user
       (deployment (\<lambda>t s. Inr [''role'' \<mapsto> PyStr ''authenticated''])
          (\<lambda>rq. Inl (OtherError ''offline''))) ''abc''
     = Inl (HTTPException 401 (PyStr detail_401)) \<and>
   get_current_user
       (deployment (\<lambda>t s. Inr [''sub'' \<mapsto> PyStr ''user-1''])
          (\<lambda>rq. Inl (OtherError ''offline''))) ''abc''
     = Inr (PyStr ''user-1'')"
  using get_current_user_tiers
          [of "deployment (\<lambda>t s. Inl JWTError) (\<lambda>rq. Inl (OtherError ''offline''))" "''abc''"
              Map.empty PyNone]
        get_current_user_tiers
          [of "deployment (\<lambda>t s. Inr [''role'' \<mapsto> PyStr ''authenticated''])
                 (\<lambda>rq. Inl (OtherError ''offline''))" "''abc''"
              "[''role'' \<mapsto> PyStr ''authenticated'']" PyNone]
        get_current_user_tiers
          [of "deployment (\<lambda>t s. Inr [''sub'' \<mapsto> PyStr ''user-1''])
                 (\<lambda>rq. Inl (OtherError ''offline''))" "''abc''"
              "[''sub'' \<mapsto> PyStr ''user-1'']" "PyStr ''user-1''"]
  by (simp add: deployment_def)

section \<open>Facts about the forwarding endpoints\<close>

text \<open>Sending appends the request to the history and nothing else.\<close>

lemma requests_post_sent:
  "sent (snd (requests_post w u hs js))
     = sent w @ [\<lparr>http_method = POST, url = u, headers = hs, json_body = Some js\<rparr>]"
  by (simp add: requests_post_def Let_def)

lemma requests_get_sent:
  "sent (snd (requests_get w u hs))
     = sent w @ [\<lparr>http_method = GET, url = u, headers = hs, json_body = None\<rparr>]"
  by (simp add: requests_get_def Let_def)

text \<open>
  What each handler does with the response \<open>r\<close> its outbound call returned. The four
  handlers of the store raise with the status and the text of any response whose status
  is not the expected one. \<^verbatim>\<open>register\<close> and \<^verbatim>\<open>login\<close> take the detail from
  \<^verbatim>\<open>response.json()\<close>: they raise with the upstream status and the parsed body
  when the body is valid JSON other than \<^verbatim>\<open>null\<close>; for \<^verbatim>\<open>null\<close> the
  detail is the phrase of the status, and for a body that is no JSON the call ends in
  \<^verbatim>\<open>JSONDecodeError\<close>.
\<close>

lemma http_exception_detail:
  "d \<noteq> PyNone \<Longrightarrow> http_exception w s d = HTTPException s d"
  by (simp add: http_exception_def)

lemma http_exception_no_detail:
  "http_exception w s PyNone =
     (case status_phrase w s of
        None \<Rightarrow> ValueError
      | Some phrase \<Rightarrow> HTTPException s (PyStr phrase))"
  by (simp add: http_exception_def)

lemma add_decision_result:
  assumes "fst (add_decision_call w data user_id) = Inr r"
  shows "fst (add_decision w data user_id) =
           (if status_code r \<noteq> 201
            then Inl (HTTPException (status_code r) (PyStr (text' r)))
            else Inr (PyDict [(''status'', PyStr ''decision saved'')]))"
  using assms by (cases "add_decision_call w data user_id") (simp add: add_decision_def)

lemma upload_data_result:
  assumes "fst (upload_data_call w data user_id) = Inr r"
  shows "fst (upload_data w data user_id) =
           (if status_code r \<noteq> 201
            then Inl (HTTPException (status_code r) (PyStr (text' r)))
            else Inr (PyDict [(''status'', PyStr ''upload saved'')]))"
  using assms by (cases "upload_data_call w data user_id") (simp add: upload_data_def)

lemma get_user_decisions_result:
  assumes "fst (get_user_decisions_call w user_id) = Inr r"
  shows "fst (get_user_decisions w user_id) =
           (if status_code r \<noteq> 200
            then Inl (HTTPException (status_code r) (PyStr (text' r)))
            else response_json r)"
  using assms by (cases "get_user_decisions_call w user_id") (simp add: get_user_decisions_def)

lemma get_user_uploads_result:
  assumes "fst (get_user_uploads_call w user_id) = Inr r"
  shows "fst (get_user_uploads w user_id) =
           (if status_code r \<noteq> 200
            then Inl (HTTPException (status_code r) (PyStr (text' r)))
            else response_json r)"
  using assms by (cases "get_user_uploads_call w user_id") (simp add: get_user_uploads_def)

lemma register_result:
  assumes "fst (register_call w data) = Inr r"
  shows "fst (register w data) =
           (case json r of
              None \<Rightarrow> Inl JSONDecodeError
            | Some d \<Rightarrow>
                if status_code r \<noteq> 200
                then Inl (http_exception w (status_code r) d)
                else Inr d)"
  using assms
  by (cases "register_call w data")
     (simp add: register_def response_json_def split: option.splits)

lemma login_result:
  assumes "fst (login_call w data) = Inr r"
  shows "fst (login w data) =
           (case json r of
              None \<Rightarrow> Inl JSONDecodeError
            | Some d \<Rightarrow>
                if status_code r \<noteq> 200
                then Inl (http_exception w (status_code r) d)
                else Inr d)"
  using assms
  by (cases "login_call w data")
     (simp add: login_def response_json_def split: option.splits)

text \<open>One outbound request per handler call, whatever the response is: no retry.\<close>

lemma add_decision_sends_once:
  "length (sent (snd (add_decision w data user_id))) = Suc (length (sent w))"
  by (simp add: add_decision_def add_decision_call_def requests_post_def Let_def
           split: sum.splits)

lemma upload_data_sends_once:
  "length (sent (snd (upload_data w data user_id))) = Suc (length (sent w))"
  by (simp add: upload_data_def upload_data_call_def requests_post_def Let_def
           split: sum.splits)

lemma get_user_decisions_sends_once:
  "length (sent (snd (get_user_decisions w user_id))) = Suc (length (sent w))"
  by (simp add: get_user_decisions_def get_user_decisions_call_def requests_get_def Let_def
           split: sum.splits)

lemma get_user_uploads_sends_once:
  "length (sent (snd (get_user_uploads w user_id))) = Suc (length (sent w))"
  by (simp add: get_user_uploads_def get_user_uploads_call_def requests_get_def Let_def
           split: sum.splits)

lemma register_sends_once:
  "length (sent (snd (register w data))) = Suc (length (sent w))"
  by (simp add: register_def register_call_def requests_post_def Let_def
           split: sum.splits)

lemma login_sends_once:
  "length (sent (snd (login w data))) = Suc (length (sent w))"
  by (simp add: login_def login_call_def requests_post_def Let_def
           split: sum.splits)

text \<open>
  C8 fails in \<^verbatim>\<open>register\<close> (and in \<^verbatim>\<open>login\<close>, which has the same lines): the
  upstream answers the sign-up with status 502 and an HTML body, \<^verbatim>\<open>response.json()\<close>
  raises while the detail is being built, and the request ends in
  \<^verbatim>\<open>JSONDecodeError\<close>, not in an \<^verbatim>\<open>HTTPException\<close> with status 502 and the
  upstream body.
\<close>

theorem register_error_body_not_json:
  "fst (app (deployment (\<lambda>t s. Inl JWTError)
              (\<lambda>rq. Inr \<lparr>status_code = 502, text' = ''<html>Bad Gateway</html>'',
                          json = None\<rparr>))
          (POST_register \<lparr>email = ''a@example.org'', password = ''secret''\<rparr>))
     = Inl JSONDecodeError \<and>
   fst (app (deployment (\<lambda>t s. Inl JWTError)
              (\<lambda>rq. Inr \<lparr>status_code = 502, text' = ''<html>Bad Gateway</html>'',
                          json = None\<rparr>))
          (POST_register \<lparr>email = ''a@example.org'', password = ''secret''\<rparr>))
     \<noteq> Inl (HTTPException 502 (PyStr ''<html>Bad Gateway</html>''))"
  by (simp add: app_def register_def register_call_def requests_post_def deployment_def
        response_json_def Let_def)

text \<open>
  C9. When the upstream answers with status 201, \<^verbatim>\<open>add_decision\<close> returns
  \<^verbatim>\<open>{"status": "decision saved"}\<close> and \<^verbatim>\<open>upload_data\<close> returns
  \<^verbatim>\<open>{"status": "upload saved"}\<close>, whatever the body of the response is; with any
  other status, 200 included, both raise an \<^verbatim>\<open>HTTPException\<close> with the upstream
  status and text.
\<close>

theorem created_status_fixed_body:
  "(fst (add_decision_call w decision user_id) = Inr r \<longrightarrow>
      (status_code r = 201 \<longrightarrow>
         fst (add_decision w decision user_id)
           = Inr (PyDict [(''status'', PyStr ''decision saved'')])) \<and>
      (status_code r \<noteq> 201 \<longrightarrow>
         fst (add_decision w decision user_id)
           = Inl (HTTPException (status_code r) (PyStr (text' r))))) \<and>
   (fst (upload_data_call w file user_id) = Inr r \<longrightarrow>
      (status_code r = 201 \<longrightarrow>
         fst (upload_data w file user_id)
           = Inr (PyDict [(''status'', PyStr ''upload saved'')])) \<and>
      (status_code r \<noteq> 201 \<longrightarrow>
         fst (upload_data w file user_id)
           = Inl (HTTPException (status_code r) (PyStr (text' r)))))"
  by (simp add: add_decision_result upload_data_result)

theorem created_status_fixed_body_witness:
  "fst (add_decision
          (deployment (\<lambda>t s. Inl JWTError)
             (\<lambda>rq. Inr \<lparr>status_code = 201, text' = ''stored row 7'',
                         json = Some (PyNum 7)\<rparr>))
          \<lparr>action = ''buy'', reason = ''low'', price = 150, volume = 2\<rparr> (PyStr ''user-1''))
     = Inr (PyDict [(''status'', PyStr ''decision saved'')]) \<and>
   fst (upload_data
          (deployment (\<lambda>t s. Inl JWTError)
             (\<lambda>rq. Inr \<lparr>status_code = 201, text' = ''stored row 7'',
                         json = Some (PyNum 7)\<rparr>))
          \<lparr>filename = ''prices.csv'', raw_data = []\<rparr> (PyStr ''user-1''))
     = Inr (PyDict [(''status'', PyStr ''upload saved'')]) \<and>
   fst (add_decision
          (deployment (\<lambda>t s. Inl JWTError)
             (\<lambda>rq. Inr \<lparr>status_code = 200, text' = ''ok'', json = None\<rparr>))
          \<lparr>action = ''buy'', reason = ''low'', price = 150, volume = 2\<rparr> (PyStr ''user-1''))
     = Inl (HTTPException 200 (PyStr ''ok'')) \<and>
   fst (upload_data
          (deployment (\<lambda>t s. Inl JWTError)
             (\<lambda>rq. Inr \<lparr>status_code = 200, text' = ''ok'', json = None\<rparr>))
          \<lparr>filename = ''prices.csv'', raw_data = []\<rparr> (PyStr ''user-1''))
     = Inl (HTTPException 200 (PyStr ''ok''))"
  using created_status_fixed_body
          [of "deployment (\<lambda>t s. Inl JWTError)
                 (\<lambda>rq. Inr \<lparr>status_code = 201, text' = ''stored row 7'',
                             json = Some (PyNum 7)\<rparr>)"
              "\<lparr>action = ''buy'', reason = ''low'', price = 150, volume = 2\<rparr>"
              "PyStr ''user-1''"
              "\<lparr>status_code = 201, text' = ''stored row 7'', json = Some (PyNum 7)\<rparr>"
              "\<lparr>filename = ''prices.csv'', raw_data = []\<rparr>"]
        created_status_fixed_body
          [of "deployment (\<lambda>t s. Inl JWTError)
                 (\<lambda>rq. Inr \<lparr>status_code = 200, text' = ''ok'', json = None\<rparr>)"
              "\<lparr>action = ''buy'', reason = ''low'', price = 150, volume = 2\<rparr>"
              "PyStr ''user-1''"
              "\<lparr>status_code = 200, text' = ''ok'', json = None\<rparr>"
              "\<lparr>filename = ''prices.csv'', raw_data = []\<rparr>"]
  by (simp add: add_decision_call_def upload_data_call_def requests_post_def deployment_def
        Let_def)

section \<open>Facts about the application\<close>

text \<open>
  A route behind \<^verbatim>\<open>Depends(get_current_user)\<close> runs its handler with the verified
  identity, and sends nothing when verification fails.
\<close>

lemma depends_user_verified:
  "get_current_user w token = Inr user_id \<Longrightarrow> depends_user w token handler = handler user_id"
  by (simp add: depends_user_def)

lemma depends_user_rejected:
  "get_current_user w token = Inl e \<Longrightarrow> depends_user w token handler = (Inl e, w)"
  by (simp add: depends_user_def)

lemma app_decision_verified:
  "get_current_user w token = Inr user_id \<Longrightarrow>
     app w (POST_decision data token) = add_decision w data user_id"
  by (simp add: app_def depends_user_verified)

lemma app_upload_verified:
  "get_current_user w token = Inr user_id \<Longrightarrow>
     app w (POST_upload data token) = upload_data w data user_id"
  by (simp add: app_def depends_user_verified)

text \<open>
  The route \<^verbatim>\<open>/analyze\<close> has no dependency: the application calls the classifier
  on the request and sends nothing.
\<close>

lemma app_analyze: "app w (POST_analyze data) = (analyze_price data, w)"
  by (simp add: app_def)

end
